theory Spec2Isabelle
  imports Main
begin

section \<open>The Python values the codecs of \<open>pyarrow/serialization.py\<close> work on\<close>

text \<open>
  The codecs registered by \<open>register_default_serialization_handlers\<close> are small Python
  functions built from \<open>str\<close>, \<open>int\<close>, \<open>zip\<close>, \<open>OrderedDict\<close>, \<open>defaultdict\<close>,
  \<open>ndarray.tolist\<close> and \<open>np.array\<close>. Each of these is given here as a total function;
  where Python raises, the function returns \<open>Inl\<close> of the exception.
\<close>

datatype py_error = ValueError | TypeError | UnregisteredTag string

subsection \<open>Integers, \<open>str\<close> and \<open>int\<close>\<close>

text \<open>
  The values whose type is \<open>int\<close> or its subclass \<open>bool\<close>. Integers are unbounded, as
  Python's are.
\<close>

datatype int_obj = IntObj int | BoolObj bool

definition digit_char :: "nat \<Rightarrow> char" where
  "digit_char d = char_of (48 + d)"

definition is_digit :: "char \<Rightarrow> bool" where
  "is_digit c = (48 \<le> (of_char c :: nat) \<and> (of_char c :: nat) \<le> 57)"

definition digit_val :: "char \<Rightarrow> nat" where
  "digit_val c = of_char c - 48"

text \<open>
  A string is a text string whose code points are below 256. The characters that \<open>int\<close>
  strips from it are the ASCII whitespace, which is tab to carriage return and the space,
  and the two other spaces below 256, the next-line character 133 and the no-break space
  160. The separators 28 to 31 are not stripped.
\<close>

definition is_space :: "char \<Rightarrow> bool" where
  "is_space c = ((9 \<le> (of_char c :: nat) \<and> (of_char c :: nat) \<le> 13)
               \<or> (of_char c :: nat) = 32
               \<or> (of_char c :: nat) = 133 \<or> (of_char c :: nat) = 160)"

text \<open>The decimal digits of a natural number, most significant first.\<close>

fun str_nat :: "nat \<Rightarrow> string" where
  "str_nat n = (if n < 10 then [digit_char n] else str_nat (n div 10) @ [digit_char (n mod 10)])"

declare str_nat.simps [simp del]

definition str_int :: "int \<Rightarrow> string" where
  "str_int i = (if i < 0 then CHR ''-'' # str_nat (nat (- i)) else str_nat (nat i))"

text \<open>\<open>str(obj)\<close> for an object that is an \<open>int\<close>: a \<open>bool\<close> prints as its name.\<close>

fun py_str :: "int_obj \<Rightarrow> string" where
  "py_str (IntObj i) = str_int i"
| "py_str (BoolObj b) = (if b then ''True'' else ''False'')"

definition strip :: "string \<Rightarrow> string" where
  "strip s = rev (dropWhile is_space (rev (dropWhile is_space s)))"

text \<open>
  The digits of a base-10 literal: a single underscore may separate two digits. The
  accumulator is the value read so far.
\<close>

fun parse_digits :: "nat \<Rightarrow> string \<Rightarrow> nat option" where
  "parse_digits acc [] = Some acc"
| "parse_digits acc (c # cs) =
     (if is_digit c then parse_digits (10 * acc + digit_val c) cs
      else if c = CHR ''_'' then
        (case cs of [] \<Rightarrow> None
         | d # _ \<Rightarrow> if is_digit d then parse_digits acc cs else None)
      else None)"

definition parse_unsigned :: "string \<Rightarrow> nat option" where
  "parse_unsigned s =
     (case s of [] \<Rightarrow> None
      | c # _ \<Rightarrow> if is_digit c then parse_digits 0 s else None)"

text \<open>
  \<open>int(data)\<close> for a string: surrounding whitespace is dropped, one sign is accepted,
  and anything that is not a decimal literal raises \<open>ValueError\<close>.
\<close>

definition py_int :: "string \<Rightarrow> py_error + int" where
  "py_int s =
     (case strip s of [] \<Rightarrow> Inl ValueError
      | c # cs \<Rightarrow>
          if c = CHR ''-'' then
            (case parse_unsigned cs of None \<Rightarrow> Inl ValueError | Some n \<Rightarrow> Inr (- int n))
          else if c = CHR ''+'' then
            (case parse_unsigned cs of None \<Rightarrow> Inl ValueError | Some n \<Rightarrow> Inr (int n))
          else
            (case parse_unsigned (c # cs) of None \<Rightarrow> Inl ValueError | Some n \<Rightarrow> Inr (int n)))"

subsection \<open>Objects used as dictionary keys and array elements\<close>

text \<open>
  Integers, strings, tuples and lists. On these values Python's \<open>==\<close> is structural
  equality, so HOL equality stands for it; a list is not hashable, a tuple is hashable
  when its items are.
\<close>

datatype pyobj = PyInt int | PyStr string | PyTuple "pyobj list" | PyList "pyobj list"

fun hashable :: "pyobj \<Rightarrow> bool" where
  "hashable (PyInt _) = True"
| "hashable (PyStr _) = True"
| "hashable (PyTuple xs) = list_all hashable xs"
| "hashable (PyList _) = False"

subsection \<open>Dictionaries\<close>

text \<open>
  A dictionary is the list of its items in iteration order, with pairwise different
  hashable keys. \<open>d[k] = v\<close> keeps the position (and the key object) of a key that is
  already there and appends a new key at the end. Building a dictionary from an iterable of pairs
  stores them one after the other and raises \<open>TypeError\<close> at the first unhashable key.
\<close>

type_synonym 'v dict_items = "(pyobj \<times> 'v) list"

definition dict_valid :: "'v dict_items \<Rightarrow> bool" where
  "dict_valid d = (distinct (map fst d) \<and> list_all hashable (map fst d))"

fun dict_setitem :: "pyobj \<Rightarrow> 'v \<Rightarrow> 'v dict_items \<Rightarrow> 'v dict_items" where
  "dict_setitem k v [] = [(k, v)]"
| "dict_setitem k v ((k', v') # es) =
     (if k' = k then (k', v) # es else (k', v') # dict_setitem k v es)"

fun dict_update :: "(pyobj \<times> 'v) list \<Rightarrow> 'v dict_items \<Rightarrow> py_error + 'v dict_items" where
  "dict_update [] d = Inr d"
| "dict_update ((k, v) # ps) d =
     (if hashable k then dict_update ps (dict_setitem k v d) else Inl TypeError)"

text \<open>\<open>OrderedDict(pairs)\<close>.\<close>

definition OrderedDict :: "(pyobj \<times> 'v) list \<Rightarrow> py_error + 'v dict_items" where
  "OrderedDict ps = dict_update ps []"

text \<open>A \<open>defaultdict\<close>: its items and its \<open>default_factory\<close>, a callable or \<open>None\<close>.\<close>

record ('f, 'v) defaultdict =
  default_factory :: "'f option"
  items :: "'v dict_items"

text \<open>\<open>defaultdict(factory, pairs)\<close>.\<close>

definition defaultdict_init ::
  "'f option \<Rightarrow> (pyobj \<times> 'v) list \<Rightarrow> py_error + ('f, 'v) defaultdict" where
  "defaultdict_init f ps =
     (case dict_update ps [] of Inl e \<Rightarrow> Inl e
      | Inr d \<Rightarrow> Inr \<lparr>default_factory = f, items = d\<rparr>)"

subsection \<open>Arrays of dtype object\<close>

text \<open>
  The source registers the list codec for \<open>np.ndarray\<close> with the remark that it serves
  arrays of dtype object, the primitive dtypes going through Arrow's tensor encoding.
  The arrays here are those of dtype object: a shape and the elements in row-major order,
  one per index, with at most \<open>NPY_MAXDIMS\<close> axes.
\<close>

datatype dtype = Object

record ndarray =
  shape :: "nat list"
  dtype :: dtype
  flat :: "pyobj list"

definition NPY_MAXDIMS :: nat where
  "NPY_MAXDIMS = 32"

definition ndarray_valid :: "ndarray \<Rightarrow> bool" where
  "ndarray_valid a =
     (length (flat a) = prod_list (shape a) \<and> length (shape a) \<le> NPY_MAXDIMS)"

text \<open>
  \<open>a.tolist()\<close>: one list per axis, nested in the order of the axes; an array without
  axes gives its only element. The elements of an object array are returned as they are.
\<close>

fun tolist_rec :: "nat list \<Rightarrow> pyobj list \<Rightarrow> pyobj" where
  "tolist_rec [] xs = hd xs"
| "tolist_rec (n # s) xs =
     PyList (map (\<lambda>i. tolist_rec s (take (prod_list s) (drop (i * prod_list s) xs))) [0..<n])"

definition tolist :: "ndarray \<Rightarrow> pyobj" where
  "tolist a = tolist_rec (shape a) (flat a)"

text \<open>
  \<open>a.dtype.str\<close>, and \<open>np.dtype\<close> on strings that name the object dtype. What
  \<open>np.dtype\<close> makes of any other string, another dtype or an exception, is outside these
  arrays: the result \<open>None\<close> says nothing about it.
\<close>

definition dtype_str :: "dtype \<Rightarrow> string" where
  "dtype_str d = (case d of Object \<Rightarrow> ''|O'')"

definition np_dtype :: "string \<Rightarrow> dtype option" where
  "np_dtype s = (if s = ''|O'' \<or> s = ''O'' \<or> s = ''object'' then Some Object else None)"

text \<open>
  \<open>np.array(obj, dtype=object)\<close> finds the shape by descending into lists and tuples:
  an axis has the length of the sequence, and the axes below it are those on which all
  items of the sequence agree. A string or an integer has no axes, and the descent
  stops after \<open>NPY_MAXDIMS\<close> axes. The elements are the objects found at that depth.
\<close>

fun common_prefix :: "nat list \<Rightarrow> nat list \<Rightarrow> nat list" where
  "common_prefix (x # xs) (y # ys) = (if x = y then x # common_prefix xs ys else [])"
| "common_prefix _ _ = []"

definition common_dims :: "nat list list \<Rightarrow> nat list" where
  "common_dims ds =
     (case ds of [] \<Rightarrow> [] | d # rest \<Rightarrow> fold (\<lambda>e acc. common_prefix acc e) rest d)"

fun discover_dimensions :: "nat \<Rightarrow> pyobj \<Rightarrow> nat list" where
  "discover_dimensions 0 obj = []"
| "discover_dimensions (Suc m) (PyInt i) = []"
| "discover_dimensions (Suc m) (PyStr s) = []"
| "discover_dimensions (Suc m) (PyTuple xs) =
     length xs # common_dims (map (discover_dimensions m) xs)"
| "discover_dimensions (Suc m) (PyList xs) =
     length xs # common_dims (map (discover_dimensions m) xs)"

fun flatten_to :: "nat \<Rightarrow> pyobj \<Rightarrow> pyobj list" where
  "flatten_to 0 obj = [obj]"
| "flatten_to (Suc k) (PyTuple xs) = concat (map (flatten_to k) xs)"
| "flatten_to (Suc k) (PyList xs) = concat (map (flatten_to k) xs)"
| "flatten_to (Suc k) obj = [obj]"

definition np_array :: "pyobj \<Rightarrow> dtype \<Rightarrow> ndarray" where
  "np_array obj dt =
     (let dims = discover_dimensions NPY_MAXDIMS obj
      in \<lparr>shape = dims, dtype = dt, flat = flatten_to (length dims) obj\<rparr>)"

section \<open>The codecs of \<open>serialization.py\<close>\<close>

text \<open>Lines 38 to 43: the list codec of \<open>np.ndarray\<close>. The deserializer is given on the
  strings that name the object dtype.\<close>

definition serialize_numpy_array_list :: "ndarray \<Rightarrow> pyobj \<times> string" where
  "serialize_numpy_array_list obj = (tolist obj, dtype_str (dtype obj))"

definition deserialize_numpy_array_list :: "pyobj \<times> string \<Rightarrow> ndarray option" where
  "deserialize_numpy_array_list data =
     (case np_dtype (snd data) of None \<Rightarrow> None
      | Some dt \<Rightarrow> Some (np_array (fst data) dt))"

text \<open>Lines 67 to 70: the two lambdas registered for \<open>int\<close>.\<close>

definition int_custom_serializer :: "int_obj \<Rightarrow> string" where
  "int_custom_serializer obj = py_str obj"

definition int_custom_deserializer :: "string \<Rightarrow> py_error + int" where
  "int_custom_deserializer data = py_int data"

text \<open>Lines 78 to 82: the codec of \<open>OrderedDict\<close>.\<close>

definition serialize_ordered_dict :: "'v dict_items \<Rightarrow> pyobj list \<times> 'v list" where
  "serialize_ordered_dict obj = (map fst obj, map snd obj)"

definition deserialize_ordered_dict :: "pyobj list \<times> 'v list \<Rightarrow> py_error + 'v dict_items" where
  "deserialize_ordered_dict data = OrderedDict (zip (fst data) (snd data))"

text \<open>Lines 89 to 93: the codec of \<open>defaultdict\<close>.\<close>

definition serialize_default_dict ::
  "('f, 'v) defaultdict \<Rightarrow> pyobj list \<times> 'v list \<times> 'f option" where
  "serialize_default_dict obj =
     (map fst (items obj), map snd (items obj), default_factory obj)"

definition deserialize_default_dict ::
  "pyobj list \<times> 'v list \<times> 'f option \<Rightarrow> py_error + ('f, 'v) defaultdict" where
  "deserialize_default_dict data =
     (case data of (d0, d1, d2) \<Rightarrow> defaultdict_init d2 (zip d0 d1))"

section \<open>The serialization context\<close>

text \<open>
  \<open>serialization.py\<close> imports \<open>_default_serialization_context\<close> from \<open>pyarrow.lib\<close> and
  calls \<open>register_type\<close> and \<open>clone\<close> on it. The class of that object is not part of the
  source file, so the context is given as the specification describes it.
\<close>

text \<open>Modelled from the spec: the Codec with its TypeTag, the part of a RegistrationEntry
  that belongs to a registered type (specification, sections 2 and 3).\<close>

record 'f tagged_codec =
  type_tag :: string
  custom_serializer :: 'f
  custom_deserializer :: 'f

text \<open>Modelled from the spec: the SerializationContext, an ordered-by-registration mapping
  from type identity to RegistrationEntry together with the Fallback entry, which has no
  type of its own (section 3).\<close>

record ('t, 'f) serialization_context =
  registry :: "('t \<times> 'f tagged_codec) list"
  fallback :: "'f tagged_codec"

text \<open>Modelled from the spec: the exact-match lookup by type identity (section 4.2).\<close>

definition lookup_type :: "('t, 'f) serialization_context \<Rightarrow> 't \<Rightarrow> 'f tagged_codec option" where
  "lookup_type ctx t = map_of (registry ctx) t"

text \<open>Modelled from the spec: the lookup by TypeTag, an exact string match with no
  ancestry walk (section 4.4); of two entries with one tag the later registration
  wins (section 4.1).\<close>

definition lookup_tag ::
  "('t, 'f) serialization_context \<Rightarrow> string \<Rightarrow> ('t \<times> 'f tagged_codec) option" where
  "lookup_tag ctx tag = find (\<lambda>e. type_tag (snd e) = tag) (rev (registry ctx))"

text \<open>Modelled from the spec: \<open>register(type, tag, serializer, deserializer)\<close>, which
  inserts or replaces the RegistrationEntry for that type (section 4.1). The new entry is
  the last one in registration order.\<close>

definition register ::
  "'t \<Rightarrow> string \<Rightarrow> 'f \<Rightarrow> 'f \<Rightarrow> ('t, 'f) serialization_context \<Rightarrow> ('t, 'f) serialization_context" where
  "register t tag ser de ctx =
     ctx\<lparr>registry := filter (\<lambda>e. fst e \<noteq> t) (registry ctx)
        @ [(t, \<lparr>type_tag = tag, custom_serializer = ser, custom_deserializer = de\<rparr>)]\<rparr>"

text \<open>Modelled from the spec: the ancestry walk of section 4.2, over the supertypes of a
  type from the most specific to the least specific; the first registered one is taken.\<close>

fun first_registered ::
  "('t, 'f) serialization_context \<Rightarrow> 't list \<Rightarrow> 'f tagged_codec option" where
  "first_registered ctx [] = None"
| "first_registered ctx (t # ts) =
     (case lookup_type ctx t of Some e \<Rightarrow> Some e | None \<Rightarrow> first_registered ctx ts)"

text \<open>Modelled from the spec: type resolution (section 4.2): the exact match first, then
  the ancestry walk, then the Fallback entry. The class hierarchy is the argument
  \<open>ancestry\<close>, which lists the proper supertypes of a type in the order of the walk.\<close>

definition resolve ::
  "('t \<Rightarrow> 't list) \<Rightarrow> ('t, 'f) serialization_context \<Rightarrow> 't \<Rightarrow> 'f tagged_codec" where
  "resolve ancestry ctx t =
     (case lookup_type ctx t of Some e \<Rightarrow> e
      | None \<Rightarrow> (case first_registered ctx (ancestry t) of Some e \<Rightarrow> e
                 | None \<Rightarrow> fallback ctx))"

text \<open>Modelled from the spec: the Representation (section 3), a Buffer or an ordered
  tuple whose elements are primitives, which pass through unchanged, or tagged
  representations of their own.\<close>

datatype ('b, 'v) representation = Buffer 'b | Structured "('b, 'v) element list"
and ('b, 'v) element = Primitive 'v | Tagged string "('b, 'v) representation"

text \<open>Modelled from the spec: what a deserializer is invoked on (section 4.4), the
  buffer or the tuple of the rehydrated elements.\<close>

datatype ('b, 'v) rehydrated = From_buffer 'b | From_tuple "'v list"

text \<open>Modelled from the spec: \<open>deserialize(tag, representation)\<close> (section 4.4). The
  codec is looked up by tag and the call fails when the tag is not registered; the tagged
  elements of a structured representation are deserialized first, and a failure among them
  or in the deserializer is passed on. The argument \<open>call\<close> runs a registered function.\<close>

fun deserialize ::
  "('f \<Rightarrow> ('b, 'v) rehydrated \<Rightarrow> py_error + 'v) \<Rightarrow> ('t, 'f) serialization_context
   \<Rightarrow> string \<Rightarrow> ('b, 'v) representation \<Rightarrow> py_error + 'v"
and deserialize_elements ::
  "('f \<Rightarrow> ('b, 'v) rehydrated \<Rightarrow> py_error + 'v) \<Rightarrow> ('t, 'f) serialization_context
   \<Rightarrow> ('b, 'v) element list \<Rightarrow> py_error + 'v list"
where
  "deserialize call ctx tag (Buffer b) =
     (case lookup_tag ctx tag of None \<Rightarrow> Inl (UnregisteredTag tag)
      | Some e \<Rightarrow> call (custom_deserializer (snd e)) (From_buffer b))"
| "deserialize call ctx tag (Structured es) =
     (case lookup_tag ctx tag of None \<Rightarrow> Inl (UnregisteredTag tag)
      | Some e \<Rightarrow>
          (case deserialize_elements call ctx es of Inl err \<Rightarrow> Inl err
           | Inr vs \<Rightarrow> call (custom_deserializer (snd e)) (From_tuple vs)))"
| "deserialize_elements call ctx [] = Inr []"
| "deserialize_elements call ctx (Primitive v # es) =
     (case deserialize_elements call ctx es of Inl err \<Rightarrow> Inl err
      | Inr vs \<Rightarrow> Inr (v # vs))"
| "deserialize_elements call ctx (Tagged t r # es) =
     (case deserialize call ctx t r of Inl err \<Rightarrow> Inl err
      | Inr v \<Rightarrow>
          (case deserialize_elements call ctx es of Inl err \<Rightarrow> Inl err
           | Inr vs \<Rightarrow> Inr (v # vs)))"

subsection \<open>Contexts as objects\<close>

text \<open>
  A context is a mutable object and the module holds two names for contexts, so the
  contexts live in a store: the list of all context objects, an object being named by its
  index.
\<close>

type_synonym ('t, 'f) store = "('t, 'f) serialization_context list"

text \<open>Modelled from the spec: the method \<open>register_type\<close> of a context object, which
  changes the registry of that object in place (section 4.1).\<close>

definition register_type ::
  "nat \<Rightarrow> 't \<Rightarrow> string \<Rightarrow> 'f \<Rightarrow> 'f \<Rightarrow> ('t, 'f) store \<Rightarrow> ('t, 'f) store" where
  "register_type a t tag ser de s = s[a := register t tag ser de (s ! a)]"

text \<open>Modelled from the spec: \<open>clone()\<close>, which produces a new context whose registry is
  a full independent copy of the current entries (section 4.1): a new object, holding
  the value of the cloned one.\<close>

definition clone :: "nat \<Rightarrow> ('t, 'f) store \<Rightarrow> ('t, 'f) store \<times> nat" where
  "clone a s = (s @ [s ! a], length s)"

section \<open>The registrations of \<open>serialization.py\<close>\<close>

text \<open>
  The types the module registers; \<open>Torch_tensor n\<close> is the class \<open>torch.n\<close>, and
  \<open>Other_type n\<close> is any other class, by its qualified name.
\<close>

datatype pytype =
    Py_int | Py_long | Py_OrderedDict | Py_defaultdict | Py_function | Py_type
  | Np_ndarray | Torch_tensor string | Pd_Series | Pd_Index | Pd_DataFrame
  | Other_type string

text \<open>
  The function objects the module registers. \<open>_serialize_numpy_array_pickle\<close> is
  another name of \<open>_pickle_to_buffer\<close>, and \<open>_deserialize_numpy_array_pickle\<close> of
  \<open>_load_pickle_from_buffer\<close>. The two groups of pandas functions are the local
  functions of \<open>_register_pandas_arrow_handlers\<close> and of \<open>_register_custom_pandas_handlers\<close>.
\<close>

datatype pyfun =
    F_int_str | F_int_int | F_long_str | F_long_long
  | F_serialize_ordered_dict | F_deserialize_ordered_dict
  | F_serialize_default_dict | F_deserialize_default_dict
  | F_cloudpickle_dumps | F_cloudpickle_loads
  | F_pickle_dumps | F_pickle_loads
  | F_serialize_numpy_array_list | F_deserialize_numpy_array_list
  | F_serialize_torch_tensor | F_deserialize_torch_tensor
  | F_pickle_to_buffer | F_load_pickle_from_buffer
  | F_arrow_serialize_pandas_series | F_arrow_deserialize_pandas_series
  | F_arrow_serialize_pandas_dataframe | F_arrow_deserialize_pandas_dataframe
  | F_custom_serialize_pandas_series | F_custom_deserialize_pandas_series
  | F_custom_serialize_pandas_dataframe | F_custom_deserialize_pandas_dataframe

text \<open>
  What the module tests when it is imported: \<open>sys.version_info < (3, 0)\<close>, and
  whether \<open>cloudpickle\<close>, \<open>torch\<close> and \<open>pandas\<close> can be imported.
\<close>

record env =
  py2 :: bool
  has_cloudpickle :: bool
  has_torch :: bool
  has_pandas :: bool

definition torch_tensor_types :: "string list" where
  "torch_tensor_types = [''FloatTensor'', ''DoubleTensor'', ''HalfTensor'', ''ByteTensor'',
     ''CharTensor'', ''ShortTensor'', ''IntTensor'', ''LongTensor'']"

text \<open>Lines 59 to 135. The context is passed as the object it names.\<close>

definition register_default_serialization_handlers ::
  "env \<Rightarrow> nat \<Rightarrow> (pytype, pyfun) store \<Rightarrow> (pytype, pyfun) store" where
  "register_default_serialization_handlers ev serialization_context s0 =
     (let s1 = register_type serialization_context Py_int ''int'' F_int_str F_int_int s0;
          s2 = (if py2 ev
                then register_type serialization_context Py_long ''long''
                       F_long_str F_long_long s1
                else s1);
          s3 = register_type serialization_context Py_OrderedDict ''OrderedDict''
                 F_serialize_ordered_dict F_deserialize_ordered_dict s2;
          s4 = register_type serialization_context Py_defaultdict ''defaultdict''
                 F_serialize_default_dict F_deserialize_default_dict s3;
          dumps = (if has_cloudpickle ev then F_cloudpickle_dumps else F_pickle_dumps);
          loads = (if has_cloudpickle ev then F_cloudpickle_loads else F_pickle_loads);
          s5 = register_type serialization_context Py_function ''function'' dumps loads s4;
          s6 = register_type serialization_context Py_type ''type'' dumps loads s5;
          s7 = register_type serialization_context Np_ndarray ''np.array''
                 F_serialize_numpy_array_list F_deserialize_numpy_array_list s6
      in if has_torch ev
         then fold (\<lambda>t. register_type serialization_context (Torch_tensor t) (''torch.'' @ t)
                      F_serialize_torch_tensor F_deserialize_torch_tensor) torch_tensor_types s7
         else s7)"

text \<open>Lines 148 to 175.\<close>

definition register_pandas_arrow_handlers ::
  "env \<Rightarrow> nat \<Rightarrow> (pytype, pyfun) store \<Rightarrow> (pytype, pyfun) store" where
  "register_pandas_arrow_handlers ev context s0 =
     (if \<not> has_pandas ev then s0
      else
        let s1 = register_type context Pd_Series ''pd.Series''
                   F_arrow_serialize_pandas_series F_arrow_deserialize_pandas_series s0
        in register_type context Pd_DataFrame ''pd.DataFrame''
             F_arrow_serialize_pandas_dataframe F_arrow_deserialize_pandas_dataframe s1)"

text \<open>Lines 178 to 214.\<close>

definition register_custom_pandas_handlers ::
  "env \<Rightarrow> nat \<Rightarrow> (pytype, pyfun) store \<Rightarrow> (pytype, pyfun) store" where
  "register_custom_pandas_handlers ev context s0 =
     (if \<not> has_pandas ev then s0
      else
        let s1 = register_type context Pd_Series ''pd.Series''
                   F_custom_serialize_pandas_series F_custom_deserialize_pandas_series s0;
            s2 = register_type context Pd_Index ''pd.Index''
                   F_pickle_to_buffer F_load_pickle_from_buffer s1
        in register_type context Pd_DataFrame ''pd.DataFrame''
             F_custom_serialize_pandas_dataframe F_custom_deserialize_pandas_dataframe s2)"

subsection \<open>The module level\<close>

text \<open>
  The statements the module runs when it is imported, each as the store it leaves. The
  store starts with one object, the context \<open>lib_ctx\<close> that \<open>pyarrow.lib\<close> created under
  the name \<open>_default_serialization_context\<close>.
\<close>

definition default_serialization_context :: nat where
  "default_serialization_context = 0"

text \<open>Line 138.\<close>

definition module_line_138 ::
  "env \<Rightarrow> (pytype, pyfun) serialization_context \<Rightarrow> (pytype, pyfun) store" where
  "module_line_138 ev lib_ctx =
     register_default_serialization_handlers ev default_serialization_context [lib_ctx]"

text \<open>Line 145: the store after the clone, and the object the clone is.\<close>

definition module_line_145 ::
  "env \<Rightarrow> (pytype, pyfun) serialization_context \<Rightarrow> (pytype, pyfun) store \<times> nat" where
  "module_line_145 ev lib_ctx = clone default_serialization_context (module_line_138 ev lib_ctx)"

definition pandas_serialization_context ::
  "env \<Rightarrow> (pytype, pyfun) serialization_context \<Rightarrow> nat" where
  "pandas_serialization_context ev lib_ctx = snd (module_line_145 ev lib_ctx)"

text \<open>Line 217.\<close>

definition module_line_217 ::
  "env \<Rightarrow> (pytype, pyfun) serialization_context \<Rightarrow> (pytype, pyfun) store" where
  "module_line_217 ev lib_ctx =
     register_pandas_arrow_handlers ev default_serialization_context
       (fst (module_line_145 ev lib_ctx))"

text \<open>Line 218.\<close>

definition module_line_218 ::
  "env \<Rightarrow> (pytype, pyfun) serialization_context \<Rightarrow> (pytype, pyfun) store" where
  "module_line_218 ev lib_ctx =
     register_custom_pandas_handlers ev (pandas_serialization_context ev lib_ctx)
       (module_line_217 ev lib_ctx)"

text \<open>Lines 221 to 224: the store the import ends with.\<close>

definition module_line_224 ::
  "env \<Rightarrow> (pytype, pyfun) serialization_context \<Rightarrow> (pytype, pyfun) store" where
  "module_line_224 ev lib_ctx =
     register_type (pandas_serialization_context ev lib_ctx) Np_ndarray ''np.array''
       F_pickle_to_buffer F_load_pickle_from_buffer (module_line_218 ev lib_ctx)"

subsection \<open>An example environment\<close>

text \<open>
  Python 3 with \<open>cloudpickle\<close> and \<open>pandas\<close> and without \<open>torch\<close>, a context that
  \<open>pyarrow.lib\<close> created empty, and the supertypes of \<open>numpy.matrix\<close>, which are \<open>numpy.ndarray\<close>
  and \<open>object\<close>; no other class is walked in the examples.
\<close>

definition example_env :: env where
  "example_env = \<lparr>py2 = False, has_cloudpickle = True, has_torch = False, has_pandas = True\<rparr>"

definition empty_context :: "(pytype, pyfun) serialization_context" where
  "empty_context = \<lparr>registry = [], fallback = \<lparr>type_tag = ''pickle'',
     custom_serializer = F_pickle_dumps, custom_deserializer = F_pickle_loads\<rparr>\<rparr>"


section \<open>The \<open>int\<close> codec\<close>

lemma digit_val_digit_char: "d < 10 \<Longrightarrow> digit_val (digit_char d) = d"
  by (simp add: digit_val_def digit_char_def)

lemma is_digit_digit_char: "d < 10 \<Longrightarrow> is_digit (digit_char d)"
  by (simp add: is_digit_def digit_char_def)

lemma is_digit_not_space: "is_digit c \<Longrightarrow> \<not> is_space c"
  by (auto simp: is_digit_def is_space_def)

lemma str_nat_digits: "list_all is_digit (str_nat n)"
proof (induction n rule: str_nat.induct)
  case (1 n)
  show ?case
  proof (cases "n < 10")
    case True
    then show ?thesis by (simp add: str_nat.simps [of n] is_digit_digit_char)
  next
    case False
    with 1 show ?thesis by (simp add: str_nat.simps [of n] is_digit_digit_char)
  qed
qed

lemma str_nat_nonempty: "str_nat n \<noteq> []"
  by (simp add: str_nat.simps [of n])

lemma parse_digits_all_digits:
  "list_all is_digit ds \<Longrightarrow>
   parse_digits acc ds = Some (fold (\<lambda>c a. 10 * a + digit_val c) ds acc)"
  by (induction ds arbitrary: acc) simp_all

lemma fold_str_nat: "fold (\<lambda>c a. 10 * a + digit_val c) (str_nat n) 0 = n"
proof (induction n rule: str_nat.induct)
  case (1 n)
  show ?case
  proof (cases "n < 10")
    case True
    then show ?thesis by (simp add: str_nat.simps [of n] digit_val_digit_char)
  next
    case False
    with 1 show ?thesis by (simp add: str_nat.simps [of n] digit_val_digit_char)
  qed
qed

lemma parse_unsigned_str_nat: "parse_unsigned (str_nat n) = Some n"
proof -
  obtain c cs where s: "str_nat n = c # cs"
    using str_nat_nonempty [of n] by (cases "str_nat n") auto
  have d: "list_all is_digit (c # cs)"
    using str_nat_digits [of n] s by simp
  have "parse_digits 0 (str_nat n) = Some n"
    using parse_digits_all_digits [OF str_nat_digits, of 0 n] fold_str_nat by simp
  with s d show ?thesis by (simp add: parse_unsigned_def)
qed

lemma strip_id:
  "s \<noteq> [] \<Longrightarrow> \<not> is_space (hd s) \<Longrightarrow> \<not> is_space (last s) \<Longrightarrow> strip s = s"
proof -
  assume a: "s \<noteq> []" "\<not> is_space (hd s)" "\<not> is_space (last s)"
  then have 1: "dropWhile is_space s = s" by (cases s) auto
  from a have "rev s \<noteq> []" "\<not> is_space (hd (rev s))" by (simp_all add: hd_rev)
  then have 2: "dropWhile is_space (rev s) = rev s" by (cases "rev s") auto
  show ?thesis by (simp add: strip_def 1 2)
qed

lemma str_nat_hd_digit: "is_digit (hd (str_nat n))"
  using str_nat_digits [of n] str_nat_nonempty [of n] by (cases "str_nat n") auto

lemma str_nat_last_digit: "is_digit (last (str_nat n))"
  using str_nat_digits [of n] str_nat_nonempty [of n]
  by (simp add: list_all_iff)

lemma strip_str_int: "strip (str_int i) = str_int i"
proof (rule strip_id)
  show "str_int i \<noteq> []" by (simp add: str_int_def str_nat_nonempty)
  show "\<not> is_space (hd (str_int i))"
  proof (cases "i < 0")
    case True
    then show ?thesis by (simp add: str_int_def is_space_def)
  next
    case False
    then show ?thesis
      using is_digit_not_space [OF str_nat_hd_digit, of "nat i"] by (simp add: str_int_def)
  qed
  show "\<not> is_space (last (str_int i))"
    by (simp add: str_int_def is_digit_not_space str_nat_last_digit str_nat_nonempty)
qed

lemma hd_str_nat_not_sign: "hd (str_nat n) \<noteq> CHR ''-'' \<and> hd (str_nat n) \<noteq> CHR ''+''"
  using str_nat_hd_digit [of n] by (auto simp: is_digit_def)

lemma py_int_str_int: "py_int (str_int i) = Inr i"
proof (cases "i < 0")
  case True
  then show ?thesis
    by (simp add: py_int_def strip_str_int) (simp add: str_int_def parse_unsigned_str_nat)
next
  case False
  obtain c cs where s: "str_nat (nat i) = c # cs"
    using str_nat_nonempty [of "nat i"] by (cases "str_nat (nat i)") auto
  have c: "c \<noteq> CHR ''-''" "c \<noteq> CHR ''+''"
    using hd_str_nat_not_sign [of "nat i"] s by simp_all
  have p: "parse_unsigned (c # cs) = Some (nat i)"
    using parse_unsigned_str_nat [of "nat i"] s by simp
  have e: "str_int i = c # cs" using False s by (simp add: str_int_def)
  have "strip (c # cs) = c # cs" using strip_str_int [of i] e by simp
  with c p False e show ?thesis
    by (simp add: py_int_def)
qed

text \<open>
  C7. For every Python int \<open>n\<close>, however large, the deserializer registered for \<open>int\<close>
  applied to what the serializer returns, that is \<open>int(str(n))\<close>, is exactly \<open>n\<close>. (The
  integers and the strings are those of the Python versions the module was written for,
  where \<open>str\<close> and \<open>int\<close> put no bound on the number of digits.)
\<close>

theorem int_codec_roundtrip:
  "int_custom_deserializer (int_custom_serializer (IntObj n)) = Inr n"
  by (simp add: int_custom_deserializer_def int_custom_serializer_def py_int_str_int)

text \<open>
  C9. For each of the two values of type \<open>bool\<close>, the serializer registered for \<open>int\<close>
  returns the name of the value, \<open>True\<close> or \<open>False\<close>, and the deserializer raises
  \<open>ValueError\<close> on it: the composition does not give the value back.
\<close>

theorem int_codec_bool_fails:
  "int_custom_serializer (BoolObj b) = (if b then ''True'' else ''False'')
   \<and> int_custom_deserializer (int_custom_serializer (BoolObj b)) = Inl ValueError"
  by (cases b) (simp_all add: int_custom_deserializer_def int_custom_serializer_def
      py_int_def strip_def is_space_def parse_unsigned_def is_digit_def)

section \<open>The codecs of \<open>OrderedDict\<close> and \<open>defaultdict\<close>\<close>

lemma dict_setitem_fresh: "k \<notin> set (map fst d) \<Longrightarrow> dict_setitem k v d = d @ [(k, v)]"
  by (induction d) auto

lemma dict_update_fresh:
  "distinct (map fst ps) \<Longrightarrow> list_all hashable (map fst ps) \<Longrightarrow>
   set (map fst ps) \<inter> set (map fst d) = {} \<Longrightarrow> dict_update ps d = Inr (d @ ps)"
proof (induction ps arbitrary: d)
  case Nil
  then show ?case by simp
next
  case (Cons p ps)
  obtain k v where p: "p = (k, v)" by (cases p)
  from Cons.prems p have fresh: "k \<notin> set (map fst d)" by auto
  have "dict_update ps (d @ [(k, v)]) = Inr ((d @ [(k, v)]) @ ps)"
    using Cons.prems p by (intro Cons.IH) auto
  with Cons.prems p fresh show ?case by (simp add: dict_setitem_fresh)
qed

lemma map_fst_dict_setitem:
  "map fst (dict_setitem k v d) = (if k \<in> set (map fst d) then map fst d else map fst d @ [k])"
  by (induction d) (auto simp del: set_map)

lemma keys_dict_setitem: "set (map fst (dict_setitem k v d)) = insert k (set (map fst d))"
  unfolding map_fst_dict_setitem by (auto simp del: set_map)

lemma distinct_dict_setitem:
  "distinct (map fst d) \<Longrightarrow> distinct (map fst (dict_setitem k v d))"
  unfolding map_fst_dict_setitem by (auto simp del: set_map)

lemma dict_update_total:
  "list_all hashable (map fst ps) \<Longrightarrow> distinct (map fst d) \<Longrightarrow>
   \<exists>d'. dict_update ps d = Inr d' \<and> distinct (map fst d')
        \<and> set (map fst d') = set (map fst d) \<union> set (map fst ps)"
proof (induction ps arbitrary: d)
  case Nil
  then show ?case by simp
next
  case (Cons p ps)
  obtain k v where p: "p = (k, v)" by (cases p)
  have "\<exists>d'. dict_update ps (dict_setitem k v d) = Inr d' \<and> distinct (map fst d')
        \<and> set (map fst d') = set (map fst (dict_setitem k v d)) \<union> set (map fst ps)"
    using Cons.prems p by (intro Cons.IH) (auto simp: distinct_dict_setitem)
  then obtain d' where d': "dict_update ps (dict_setitem k v d) = Inr d'" "distinct (map fst d')"
    "set (map fst d') = set (map fst (dict_setitem k v d)) \<union> set (map fst ps)" by blast
  from d'(3) have "set (map fst d') = set (map fst d) \<union> set (map fst (p # ps))"
    unfolding keys_dict_setitem p by (auto simp del: set_map)
  with d'(1,2) Cons.prems p show ?case by (simp del: set_map)
qed

text \<open>
  C1. For every OrderedDict, the deserializer registered for \<open>OrderedDict\<close> applied to
  what the serializer returns (the list of the keys and the list of the values) is
  an OrderedDict with the same keys in the same order and the same values; the witness is
  the dictionary with the keys \<open>a\<close> and \<open>b\<close> and the values 1 and 2.
\<close>

theorem ordered_dict_codec_roundtrip:
  assumes "dict_valid od"
  shows "deserialize_ordered_dict (serialize_ordered_dict od) = Inr od"
proof -
  have "dict_update (zip (map fst od) (map snd od)) [] = Inr ([] @ zip (map fst od) (map snd od))"
    using assms by (intro dict_update_fresh) (simp_all add: dict_valid_def zip_map_fst_snd)
  then show ?thesis
    by (simp add: deserialize_ordered_dict_def serialize_ordered_dict_def OrderedDict_def
        zip_map_fst_snd)
qed

theorem ordered_dict_codec_roundtrip_witness:
  "dict_valid [(PyStr ''a'', 1 :: int), (PyStr ''b'', 2)]
   \<and> serialize_ordered_dict [(PyStr ''a'', 1 :: int), (PyStr ''b'', 2)]
       = ([PyStr ''a'', PyStr ''b''], [1, 2])
   \<and> deserialize_ordered_dict ([PyStr ''a'', PyStr ''b''], [1 :: int, 2])
       = Inr [(PyStr ''a'', 1), (PyStr ''b'', 2)]"
proof -
  have h: "dict_valid [(PyStr ''a'', 1 :: int), (PyStr ''b'', 2)]"
    by (simp add: dict_valid_def)
  show ?thesis
    using h ordered_dict_codec_roundtrip [OF h] by (simp add: serialize_ordered_dict_def)
qed

text \<open>
  C8. For every defaultdict, the deserializer registered for \<open>defaultdict\<close> applied to
  what the serializer returns (the keys, the values and the \<open>default_factory\<close>) is a
  defaultdict with the same mapping from keys to values and the same \<open>default_factory\<close>.
\<close>

theorem default_dict_codec_roundtrip:
  assumes "dict_valid (items d)"
  shows "\<exists>d'. deserialize_default_dict (serialize_default_dict d) = Inr d'
     \<and> dict_valid (items d')
     \<and> map_of (items d') = map_of (items d)
     \<and> default_factory d' = default_factory d"
proof -
  have "dict_update (zip (map fst (items d)) (map snd (items d))) []
      = Inr ([] @ zip (map fst (items d)) (map snd (items d)))"
    using assms by (intro dict_update_fresh) (simp_all add: dict_valid_def zip_map_fst_snd)
  then have "deserialize_default_dict (serialize_default_dict d)
      = Inr \<lparr>default_factory = default_factory d, items = items d\<rparr>"
    by (simp add: deserialize_default_dict_def serialize_default_dict_def defaultdict_init_def
        zip_map_fst_snd)
  with assms show ?thesis by simp
qed

theorem default_dict_codec_roundtrip_witness:
  "dict_valid (items \<lparr>default_factory = Some ''list'',
       items = [(PyStr ''a'', 1 :: int), (PyInt 7, 2)]\<rparr>)
   \<and> (\<exists>d'. deserialize_default_dict (serialize_default_dict
         \<lparr>default_factory = Some ''list'', items = [(PyStr ''a'', 1 :: int), (PyInt 7, 2)]\<rparr>)
         = Inr d'
       \<and> map_of (items d') = [PyStr ''a'' \<mapsto> 1, PyInt 7 \<mapsto> 2]
       \<and> default_factory d' = Some ''list'')"
proof -
  have h: "dict_valid (items \<lparr>default_factory = Some ''list'',
       items = [(PyStr ''a'', 1 :: int), (PyInt 7, 2)]\<rparr>)"
    by (simp add: dict_valid_def)
  have m: "map_of [(PyStr ''a'', 1 :: int), (PyInt 7, 2)] = [PyStr ''a'' \<mapsto> 1, PyInt 7 \<mapsto> 2]"
    by (auto simp: fun_eq_iff)
  show ?thesis
    using h m default_dict_codec_roundtrip [OF h] by auto
qed

text \<open>
  C10, as stated: for every pair of lists of unequal lengths the deserializer of the
  \<open>OrderedDict\<close> codec returns an OrderedDict with as many entries as the shorter list has.
  It does not where a key is repeated among the zipped keys, and it raises \<open>TypeError\<close>
  where one of them is not hashable.
\<close>

theorem ordered_dict_unequal_lengths_counterexample:
  "length [PyStr ''a'', PyStr ''a'', PyStr ''b''] \<noteq> length [1 :: int, 2]
   \<and> deserialize_ordered_dict ([PyStr ''a'', PyStr ''a'', PyStr ''b''], [1 :: int, 2])
       = Inr [(PyStr ''a'', 2)]
   \<and> length [(PyStr ''a'', 2 :: int)]
       \<noteq> min (length [PyStr ''a'', PyStr ''a'', PyStr ''b'']) (length [1 :: int, 2])
   \<and> length [PyList [], PyStr ''b''] \<noteq> length [1 :: int]
   \<and> deserialize_ordered_dict ([PyList [], PyStr ''b''], [1 :: int]) = Inl TypeError"
  by (simp add: deserialize_ordered_dict_def OrderedDict_def)

text \<open>
  C10, amended. For every pair of lists \<open>(ks, vs)\<close> of unequal lengths in which the first
  \<open>min (len ks) (len vs)\<close> keys are hashable, the deserializer does not fail: it drops what
  the longer list has beyond the shorter one and returns an OrderedDict with one entry for
  each different key among those first keys, so with at most \<open>min (len ks) (len vs)\<close>
  entries; where those keys are pairwise different the entries are the zipped pairs
  in their order, \<open>min (len ks) (len vs)\<close> of them.
\<close>

theorem ordered_dict_unequal_lengths:
  assumes "length ks \<noteq> length vs"
    and "list_all hashable (take (min (length ks) (length vs)) ks)"
  shows "\<exists>od. deserialize_ordered_dict (ks, vs) = Inr od
     \<and> dict_valid od
     \<and> deserialize_ordered_dict (ks, vs)
         = deserialize_ordered_dict (take (min (length ks) (length vs)) ks,
             take (min (length ks) (length vs)) vs)
     \<and> length od = card (set (take (min (length ks) (length vs)) ks))
     \<and> length od \<le> min (length ks) (length vs)
     \<and> (if distinct (take (min (length ks) (length vs)) ks)
         then od = zip ks vs \<and> length od = min (length ks) (length vs)
         else length od < min (length ks) (length vs))"
proof -
  let ?m = "min (length ks) (length vs)"
  have keys: "map fst (zip ks vs) = take ?m ks"
    by (simp add: map_fst_zip_take min.commute)
  have trunc: "zip (take ?m ks) (take ?m vs) = zip ks vs"
    by (simp add: take_zip [symmetric])
  from dict_update_total [of "zip ks vs" "[]"] assms(2) keys
  obtain od where od: "dict_update (zip ks vs) [] = Inr od" "distinct (map fst od)"
    "set (map fst od) = set (take ?m ks)" by auto
  have len: "length od = card (set (take ?m ks))"
    using distinct_card [OF od(2)] od(3) by simp
  have le: "length od \<le> ?m"
    using card_length [of "take ?m ks"] len by simp
  have valid: "dict_valid od"
    using od(2,3) assms(2) by (simp add: dict_valid_def list_all_iff del: set_map)
  have d: "od = zip ks vs \<and> length od = ?m" if "distinct (take ?m ks)"
  proof -
    have "dict_update (zip ks vs) [] = Inr ([] @ zip ks vs)"
      using that assms(2) keys by (intro dict_update_fresh) simp_all
    with od(1) have "od = zip ks vs" by simp
    then show ?thesis by simp
  qed
  have nd: "length od < ?m" if "\<not> distinct (take ?m ks)"
  proof -
    have "card (set (take ?m ks)) \<noteq> length (take ?m ks)"
      using that card_distinct [of "take ?m ks"] by blast
    moreover have "card (set (take ?m ks)) \<le> length (take ?m ks)"
      by (rule card_length)
    moreover have "length (take ?m ks) = ?m" by simp
    ultimately show ?thesis using len by linarith
  qed
  show ?thesis
    using od(1) valid len le d nd
    by (simp add: deserialize_ordered_dict_def OrderedDict_def trunc)
qed

theorem ordered_dict_unequal_lengths_witness:
  "length [PyStr ''a'', PyStr ''b'', PyStr ''c''] \<noteq> length [1 :: int, 2]
   \<and> list_all hashable (take 2 [PyStr ''a'', PyStr ''b'', PyStr ''c''])
   \<and> deserialize_ordered_dict ([PyStr ''a'', PyStr ''b'', PyStr ''c''], [1 :: int, 2])
       = Inr [(PyStr ''a'', 1), (PyStr ''b'', 2)]"
proof -
  have h1: "length [PyStr ''a'', PyStr ''b'', PyStr ''c''] \<noteq> length [1 :: int, 2]"
    by simp
  have h2: "list_all hashable (take (min (length [PyStr ''a'', PyStr ''b'', PyStr ''c''])
      (length [1 :: int, 2])) [PyStr ''a'', PyStr ''b'', PyStr ''c''])"
    by simp
  show ?thesis
    using ordered_dict_unequal_lengths [OF h1 h2] by auto
qed

section \<open>The list codec of \<open>np.ndarray\<close>\<close>

text \<open>
  C3. The list codec is meant to give back the array it was given, and it does for an
  array of shape \<open>(2, 3)\<close> that holds integers and strings. It does not give back
  every array, because the shape is not part of what the serializer returns and
  \<open>np.array\<close> reads it off the nesting of the lists: the array of shape \<open>(2,)\<close> whose two
  elements are the lists \<open>[1, 2]\<close> and \<open>[3, 4]\<close> comes back with the shape \<open>(2, 2)\<close> and
  four integers as elements, and the empty array of shape \<open>(0, 3)\<close> comes back with
  the shape \<open>(0,)\<close>.
\<close>

theorem numpy_list_codec_loses_shape:
  "ndarray_valid \<lparr>shape = [2], dtype = Object,
       flat = [PyList [PyInt 1, PyInt 2], PyList [PyInt 3, PyInt 4]]\<rparr>
   \<and> serialize_numpy_array_list \<lparr>shape = [2], dtype = Object,
         flat = [PyList [PyInt 1, PyInt 2], PyList [PyInt 3, PyInt 4]]\<rparr>
       = (PyList [PyList [PyInt 1, PyInt 2], PyList [PyInt 3, PyInt 4]], ''|O'')
   \<and> deserialize_numpy_array_list
         (PyList [PyList [PyInt 1, PyInt 2], PyList [PyInt 3, PyInt 4]], ''|O'')
       = Some \<lparr>shape = [2, 2], dtype = Object, flat = [PyInt 1, PyInt 2, PyInt 3, PyInt 4]\<rparr>
   \<and> \<lparr>shape = [2, 2], dtype = Object, flat = [PyInt 1, PyInt 2, PyInt 3, PyInt 4]\<rparr>
       \<noteq> \<lparr>shape = [2], dtype = Object,
           flat = [PyList [PyInt 1, PyInt 2], PyList [PyInt 3, PyInt 4]]\<rparr>
   \<and> ndarray_valid \<lparr>shape = [0, 3], dtype = Object, flat = []\<rparr>
   \<and> deserialize_numpy_array_list (serialize_numpy_array_list
         \<lparr>shape = [0, 3], dtype = Object, flat = []\<rparr>)
       = Some \<lparr>shape = [0], dtype = Object, flat = []\<rparr>
   \<and> deserialize_numpy_array_list (serialize_numpy_array_list
         \<lparr>shape = [2, 3], dtype = Object,
           flat = [PyInt 1, PyInt 2, PyInt 3, PyStr ''a'', PyStr ''b'', PyInt 4]\<rparr>)
       = Some \<lparr>shape = [2, 3], dtype = Object,
           flat = [PyInt 1, PyInt 2, PyInt 3, PyStr ''a'', PyStr ''b'', PyInt 4]\<rparr>"
proof -
  have s: "serialize_numpy_array_list \<lparr>shape = [2], dtype = Object,
         flat = [PyList [PyInt 1, PyInt 2], PyList [PyInt 3, PyInt 4]]\<rparr>
       = (PyList [PyList [PyInt 1, PyInt 2], PyList [PyInt 3, PyInt 4]], ''|O'')"
    by code_simp
  have d: "deserialize_numpy_array_list
         (PyList [PyList [PyInt 1, PyInt 2], PyList [PyInt 3, PyInt 4]], ''|O'')
       = Some \<lparr>shape = [2, 2], dtype = Object, flat = [PyInt 1, PyInt 2, PyInt 3, PyInt 4]\<rparr>"
    by code_simp
  have z: "deserialize_numpy_array_list (serialize_numpy_array_list
         \<lparr>shape = [0, 3], dtype = Object, flat = []\<rparr>)
       = Some \<lparr>shape = [0], dtype = Object, flat = []\<rparr>"
    by code_simp
  have g: "deserialize_numpy_array_list (serialize_numpy_array_list
         \<lparr>shape = [2, 3], dtype = Object,
           flat = [PyInt 1, PyInt 2, PyInt 3, PyStr ''a'', PyStr ''b'', PyInt 4]\<rparr>)
       = Some \<lparr>shape = [2, 3], dtype = Object,
           flat = [PyInt 1, PyInt 2, PyInt 3, PyStr ''a'', PyStr ''b'', PyInt 4]\<rparr>"
    by code_simp
  have v: "ndarray_valid \<lparr>shape = [2], dtype = Object,
       flat = [PyList [PyInt 1, PyInt 2], PyList [PyInt 3, PyInt 4]]\<rparr>"
    "ndarray_valid \<lparr>shape = [0, 3], dtype = Object, flat = []\<rparr>"
    by (simp_all add: ndarray_valid_def NPY_MAXDIMS_def)
  show ?thesis
    using s d z g v by simp
qed

section \<open>Registration, cloning and dispatch\<close>

lemma map_of_filter_neq:
  "map_of (filter (\<lambda>e. fst e \<noteq> t) xs) t' = (if t' = t then None else map_of xs t')"
  by (induction xs) auto

lemma lookup_type_register:
  "lookup_type (register t tag ser de ctx) t' =
     (if t' = t then Some \<lparr>type_tag = tag, custom_serializer = ser, custom_deserializer = de\<rparr>
      else lookup_type ctx t')"
  by (auto simp: lookup_type_def register_def map_of_filter_neq map_add_def
      split: option.splits)

lemma lookup_tag_register:
  "lookup_tag (register t tag ser de ctx) tag =
     Some (t, \<lparr>type_tag = tag, custom_serializer = ser, custom_deserializer = de\<rparr>)"
  by (simp add: lookup_tag_def register_def)

lemma entries_for_type_register:
  "filter (\<lambda>e. fst e = t) (registry (register t tag ser de ctx)) =
     [(t, \<lparr>type_tag = tag, custom_serializer = ser, custom_deserializer = de\<rparr>)]"
  by (simp add: register_def filter_empty_conv)

lemma length_register_type: "length (register_type a t tag ser de s) = length s"
  by (simp add: register_type_def)

lemma nth_register_type_other:
  "a \<noteq> b \<Longrightarrow> register_type a t tag ser de s ! b = s ! b"
  by (simp add: register_type_def)

lemma nth_register_type_same:
  "a < length s \<Longrightarrow> register_type a t tag ser de s ! a = register t tag ser de (s ! a)"
  by (simp add: register_type_def)

lemma length_fold_register_type:
  "length (fold (\<lambda>x. register_type a (f x) (g x) ser de) xs s) = length s"
  by (induction xs arbitrary: s) (simp_all add: length_register_type)

lemma nth_fold_register_type_other:
  "a \<noteq> b \<Longrightarrow> fold (\<lambda>x. register_type a (f x) (g x) ser de) xs s ! b = s ! b"
  by (induction xs arbitrary: s) (simp_all add: nth_register_type_other)

lemma lookup_fold_register_type:
  "a < length s \<Longrightarrow> (\<And>x. f x \<noteq> t) \<Longrightarrow>
   lookup_type (fold (\<lambda>x. register_type a (f x) (g x) ser de) xs s ! a) t = lookup_type (s ! a) t"
proof -
  assume a: "a < length s" and "\<And>x. f x \<noteq> t"
  then have n: "\<And>x. t \<noteq> f x" by auto
  from a show ?thesis
    by (induction xs arbitrary: s)
       (simp_all add: length_register_type nth_register_type_same lookup_type_register n)
qed

lemma length_register_default:
  "length (register_default_serialization_handlers ev a s) = length s"
  by (simp add: register_default_serialization_handlers_def Let_def length_register_type
      length_fold_register_type)

lemma nth_register_default_other:
  "a \<noteq> b \<Longrightarrow> register_default_serialization_handlers ev a s ! b = s ! b"
  by (simp add: register_default_serialization_handlers_def Let_def nth_register_type_other
      nth_fold_register_type_other)

lemma length_register_pandas_arrow:
  "length (register_pandas_arrow_handlers ev a s) = length s"
  by (simp add: register_pandas_arrow_handlers_def Let_def length_register_type)

lemma nth_register_pandas_arrow_other:
  "a \<noteq> b \<Longrightarrow> register_pandas_arrow_handlers ev a s ! b = s ! b"
  by (simp add: register_pandas_arrow_handlers_def Let_def nth_register_type_other)

lemma length_register_custom_pandas:
  "length (register_custom_pandas_handlers ev a s) = length s"
  by (simp add: register_custom_pandas_handlers_def Let_def length_register_type)

lemma nth_register_custom_pandas_other:
  "a \<noteq> b \<Longrightarrow> register_custom_pandas_handlers ev a s ! b = s ! b"
  by (simp add: register_custom_pandas_handlers_def Let_def nth_register_type_other)

lemma lookup_ndarray_register_default:
  "a < length s \<Longrightarrow>
   lookup_type (register_default_serialization_handlers ev a s ! a) Np_ndarray =
     Some \<lparr>type_tag = ''np.array'', custom_serializer = F_serialize_numpy_array_list,
       custom_deserializer = F_deserialize_numpy_array_list\<rparr>"
  by (auto simp: register_default_serialization_handlers_def Let_def length_register_type
      nth_register_type_same lookup_type_register lookup_fold_register_type)

lemma lookup_ndarray_register_pandas_arrow:
  "a < length s \<Longrightarrow>
   lookup_type (register_pandas_arrow_handlers ev a s ! a) Np_ndarray = lookup_type (s ! a) Np_ndarray"
  by (simp add: register_pandas_arrow_handlers_def Let_def length_register_type
      nth_register_type_same lookup_type_register)

lemma length_module_line_138: "length (module_line_138 ev c) = 1"
  by (simp add: module_line_138_def length_register_default)

lemma pandas_serialization_context_addr: "pandas_serialization_context ev c = 1"
  by (simp add: pandas_serialization_context_def module_line_145_def clone_def
      length_module_line_138)

lemma fst_module_line_145:
  "fst (module_line_145 ev c) = module_line_138 ev c @ [module_line_138 ev c ! 0]"
  by (simp add: module_line_145_def clone_def default_serialization_context_def)

lemma length_module_line_217: "length (module_line_217 ev c) = 2"
  by (simp add: module_line_217_def length_register_pandas_arrow fst_module_line_145
      length_module_line_138)

lemma length_module_line_218: "length (module_line_218 ev c) = 2"
  by (simp add: module_line_218_def length_register_custom_pandas length_module_line_217)

lemma default_after_clone:
  "fst (module_line_145 ev c) ! default_serialization_context = module_line_138 ev c ! 0"
  by (simp add: fst_module_line_145 default_serialization_context_def nth_append
      length_module_line_138)

lemma pandas_after_clone:
  "fst (module_line_145 ev c) ! pandas_serialization_context ev c = module_line_138 ev c ! 0"
  by (simp add: fst_module_line_145 pandas_serialization_context_addr nth_append
      length_module_line_138)

lemma pandas_line_217:
  "module_line_217 ev c ! pandas_serialization_context ev c = module_line_138 ev c ! 0"
  using pandas_after_clone [of ev c]
  by (simp add: module_line_217_def nth_register_pandas_arrow_other
      pandas_serialization_context_addr default_serialization_context_def)

lemma default_line_224:
  "module_line_224 ev c ! default_serialization_context
     = module_line_217 ev c ! default_serialization_context"
  by (simp add: module_line_224_def module_line_218_def nth_register_type_other
      nth_register_custom_pandas_other pandas_serialization_context_addr
      default_serialization_context_def)

text \<open>
  C2. The clone made at line 145 is an object of its own that starts with the registry
  of the base context. The registrations on the clone (line 218 and lines 221 to 224)
  leave the base context as it was after line 217, and so its dispatch results; the
  registrations on the base context after the clone (line 217) leave the clone as it was
  made. In any store, a registration on one of the two objects leaves the other unchanged.
\<close>

theorem clone_isolation:
  "pandas_serialization_context ev c \<noteq> default_serialization_context
   \<and> fst (module_line_145 ev c) ! pandas_serialization_context ev c
       = module_line_138 ev c ! default_serialization_context
   \<and> fst (module_line_145 ev c) ! default_serialization_context
       = module_line_138 ev c ! default_serialization_context
   \<and> module_line_217 ev c ! pandas_serialization_context ev c
       = fst (module_line_145 ev c) ! pandas_serialization_context ev c
   \<and> module_line_224 ev c ! default_serialization_context
       = module_line_217 ev c ! default_serialization_context
   \<and> resolve ancestry (module_line_224 ev c ! default_serialization_context) t
       = resolve ancestry (module_line_217 ev c ! default_serialization_context) t
   \<and> register_type (pandas_serialization_context ev c) t tag ser de s
         ! default_serialization_context = s ! default_serialization_context
   \<and> register_type default_serialization_context t tag ser de s
         ! pandas_serialization_context ev c = s ! pandas_serialization_context ev c"
proof -
  have addr: "pandas_serialization_context ev c \<noteq> default_serialization_context"
    by (simp add: pandas_serialization_context_addr default_serialization_context_def)
  have frame1: "register_type (pandas_serialization_context ev c) t tag ser de s
         ! default_serialization_context = s ! default_serialization_context"
    using addr by (rule nth_register_type_other)
  have frame2: "register_type default_serialization_context t tag ser de s
         ! pandas_serialization_context ev c = s ! pandas_serialization_context ev c"
    using addr [symmetric] by (rule nth_register_type_other)
  have clone1: "fst (module_line_145 ev c) ! pandas_serialization_context ev c
       = module_line_138 ev c ! default_serialization_context"
    using pandas_after_clone [of ev c] by (simp add: default_serialization_context_def)
  have clone2: "fst (module_line_145 ev c) ! default_serialization_context
       = module_line_138 ev c ! default_serialization_context"
    using default_after_clone [of ev c] by (simp add: default_serialization_context_def)
  have l217: "module_line_217 ev c ! pandas_serialization_context ev c
       = fst (module_line_145 ev c) ! pandas_serialization_context ev c"
    by (simp add: pandas_line_217 pandas_after_clone)
  have l224: "module_line_224 ev c ! default_serialization_context
       = module_line_217 ev c ! default_serialization_context"
    by (rule default_line_224)
  show ?thesis
    using addr frame1 frame2 clone1 clone2 l217 l224 by simp
qed

text \<open>
  C4. A registration for a type replaces the entry the context had for that type: the
  new entry is the only one for the type and is the one found by the type and by the tag.
  The clone inherits the list codec for \<open>np.ndarray\<close>; after lines 221 to 224 its entry
  for \<open>np.ndarray\<close>, under the tag \<open>np.array\<close>, is the pickle codec, and the base context
  still has the list codec.
\<close>

theorem reregistration_replaces:
  "lookup_type (register t tag ser de ctx) t
     = Some \<lparr>type_tag = tag, custom_serializer = ser, custom_deserializer = de\<rparr>
   \<and> filter (\<lambda>e. fst e = t) (registry (register t tag ser de ctx))
     = [(t, \<lparr>type_tag = tag, custom_serializer = ser, custom_deserializer = de\<rparr>)]
   \<and> lookup_tag (register t tag ser de ctx) tag
     = Some (t, \<lparr>type_tag = tag, custom_serializer = ser, custom_deserializer = de\<rparr>)
   \<and> lookup_type (fst (module_line_145 ev c) ! pandas_serialization_context ev c) Np_ndarray
     = Some \<lparr>type_tag = ''np.array'', custom_serializer = F_serialize_numpy_array_list,
         custom_deserializer = F_deserialize_numpy_array_list\<rparr>
   \<and> lookup_type (module_line_224 ev c ! pandas_serialization_context ev c) Np_ndarray
     = Some \<lparr>type_tag = ''np.array'', custom_serializer = F_pickle_to_buffer,
         custom_deserializer = F_load_pickle_from_buffer\<rparr>
   \<and> lookup_tag (module_line_224 ev c ! pandas_serialization_context ev c) ''np.array''
     = Some (Np_ndarray, \<lparr>type_tag = ''np.array'', custom_serializer = F_pickle_to_buffer,
         custom_deserializer = F_load_pickle_from_buffer\<rparr>)
   \<and> lookup_type (module_line_224 ev c ! default_serialization_context) Np_ndarray
     = Some \<lparr>type_tag = ''np.array'', custom_serializer = F_serialize_numpy_array_list,
         custom_deserializer = F_deserialize_numpy_array_list\<rparr>"
proof -
  have a: "lookup_type (module_line_138 ev c ! 0) Np_ndarray
     = Some \<lparr>type_tag = ''np.array'', custom_serializer = F_serialize_numpy_array_list,
         custom_deserializer = F_deserialize_numpy_array_list\<rparr>"
    by (simp add: module_line_138_def default_serialization_context_def
        lookup_ndarray_register_default)
  have b: "module_line_224 ev c ! pandas_serialization_context ev c
     = register Np_ndarray ''np.array'' F_pickle_to_buffer F_load_pickle_from_buffer
         (module_line_218 ev c ! 1)"
    by (simp add: module_line_224_def pandas_serialization_context_addr
        nth_register_type_same length_module_line_218)
  have d: "lookup_type (module_line_217 ev c ! default_serialization_context) Np_ndarray
     = lookup_type (module_line_138 ev c ! 0) Np_ndarray"
    using default_after_clone [of ev c]
    by (simp add: module_line_217_def default_serialization_context_def
        lookup_ndarray_register_pandas_arrow fst_module_line_145 length_module_line_138)
  show ?thesis
    by (simp add: lookup_type_register entries_for_type_register lookup_tag_register
        pandas_after_clone a b d default_line_224)
qed

lemma lookup_tag_None:
  "tag \<notin> set (map (\<lambda>e. type_tag (snd e)) (registry ctx)) \<Longrightarrow> lookup_tag ctx tag = None"
  by (force simp: lookup_tag_def find_None_iff)

text \<open>
  C5. In every context, \<open>deserialize\<close> with a tag that no entry of the context has fails
  with the unregistered-tag error and returns no value; so it does in the default context
  for the tag \<open>pd.Index\<close>, which only the pandas context has.
\<close>

theorem deserialize_unregistered_tag:
  assumes "tag \<notin> set (map (\<lambda>e. type_tag (snd e)) (registry ctx))"
  shows "deserialize call ctx tag rep = Inl (UnregisteredTag tag)"
  using lookup_tag_None [OF assms] by (cases rep) simp_all

theorem deserialize_unregistered_tag_witness:
  "''pd.Index'' \<notin> set (map (\<lambda>e. type_tag (snd e))
       (registry (module_line_224 example_env empty_context ! default_serialization_context)))
   \<and> deserialize (\<lambda>f x. Inr (0::nat))
        (module_line_224 example_env empty_context ! default_serialization_context)
        ''pd.Index'' (Buffer ''bytes'') = Inl (UnregisteredTag ''pd.Index'')
   \<and> lookup_tag (module_line_224 example_env empty_context
         ! pandas_serialization_context example_env empty_context) ''pd.Index''
       = Some (Pd_Index, \<lparr>type_tag = ''pd.Index'', custom_serializer = F_pickle_to_buffer,
           custom_deserializer = F_load_pickle_from_buffer\<rparr>)"
proof -
  have h: "''pd.Index'' \<notin> set (map (\<lambda>e. type_tag (snd e))
       (registry (module_line_224 example_env empty_context ! default_serialization_context)))"
    by code_simp
  have p: "lookup_tag (module_line_224 example_env empty_context
         ! pandas_serialization_context example_env empty_context) ''pd.Index''
       = Some (Pd_Index, \<lparr>type_tag = ''pd.Index'', custom_serializer = F_pickle_to_buffer,
           custom_deserializer = F_load_pickle_from_buffer\<rparr>)"
    by code_simp
  show ?thesis
    using h p deserialize_unregistered_tag [OF h, of "\<lambda>f x. Inr (0::nat)" "Buffer ''bytes''"]
    by simp
qed






end
